theory Spec2Isabelle
  imports Main "HOL-Library.Sublist"
begin

section \<open>efgh: a Go function as a CloudEvents HTTP endpoint\<close>

text \<open>
  A shallow embedding of \<^verbatim>\<open>handler.go\<close> and \<^verbatim>\<open>efgh.go\<close> (package \<^verbatim>\<open>efgh\<close>), and of the
  earlier draft of the same package that stores the request headers in the context and
  offers the accessors \<^verbatim>\<open>EventTime\<close> and \<^verbatim>\<open>EventId\<close>.

  Go strings and byte slices are both \<open>string\<close>: a HOL \<open>char\<close> is one byte.
  A nil slice and an empty slice are both \<open>[]\<close>.
\<close>

type_synonym bytes = string

subsection \<open>Package reflect: types\<close>

text \<open>
  The part of \<^verbatim>\<open>reflect.Type\<close> that the package reads: the kind, the element type of a
  slice, the parameter and result types of a function, the method set (by method name) and
  the printed form used by \<^verbatim>\<open>%v\<close>. The kinds carry a \<open>K\<close> in front of Go's names.
\<close>

datatype kind = KBool | KInt | KUint8 | KString | KArray | KFunc | KInterface | KPtr | KSlice | KStruct

datatype rtype =
    BoolT
  | IntT
  | Uint8T
  | StringT
  | ArrayT nat rtype
  | SliceT rtype
  | PtrT rtype
  | FuncT "rtype list" "rtype list"
  | InterfaceT string "string list"
  | StructT string "string list"

fun Kind :: "rtype \<Rightarrow> kind" where
  "Kind BoolT = KBool"
| "Kind IntT = KInt"
| "Kind Uint8T = KUint8"
| "Kind StringT = KString"
| "Kind (ArrayT n e) = KArray"
| "Kind (SliceT e) = KSlice"
| "Kind (PtrT e) = KPtr"
| "Kind (FuncT ins outs) = KFunc"
| "Kind (InterfaceT name ms) = KInterface"
| "Kind (StructT name ms) = KStruct"

text \<open>\<^verbatim>\<open>t.Kind() == reflect.Slice && t.Elem().Kind() == reflect.Uint8\<close>; the right operand
  is evaluated for a slice only.\<close>

fun isByteSlice :: "rtype \<Rightarrow> bool" where
  "isByteSlice (SliceT e) = (Kind e = KUint8)"
| "isByteSlice t = False"

text \<open>\<^verbatim>\<open>t.Kind() == reflect.Array && t.Elem().Kind() == reflect.Uint8\<close> (the draft).\<close>

fun isByteArray :: "rtype \<Rightarrow> bool" where
  "isByteArray (ArrayT n e) = (Kind e = KUint8)"
| "isByteArray t = False"

text \<open>\<^verbatim>\<open>NumIn\<close>/\<^verbatim>\<open>In\<close> and \<^verbatim>\<open>NumOut\<close>/\<^verbatim>\<open>Out\<close>; the code calls them on a function type only.\<close>

fun ins_of :: "rtype \<Rightarrow> rtype list" where
  "ins_of (FuncT ins outs) = ins"
| "ins_of t = []"

fun outs_of :: "rtype \<Rightarrow> rtype list" where
  "outs_of (FuncT ins outs) = outs"
| "outs_of t = []"

definition NumIn :: "rtype \<Rightarrow> nat" where
  "NumIn t = length (ins_of t)"

definition NumOut :: "rtype \<Rightarrow> nat" where
  "NumOut t = length (outs_of t)"

text \<open>The method set: an interface's methods, a struct type's methods, and for a pointer
  to a struct the methods of the struct. Signatures are not compared, names are.\<close>

fun methods :: "rtype \<Rightarrow> string list" where
  "methods (InterfaceT name ms) = ms"
| "methods (StructT name ms) = ms"
| "methods (PtrT (StructT name ms)) = ms"
| "methods t = []"

definition Implements :: "rtype \<Rightarrow> rtype \<Rightarrow> bool" where
  "Implements t u = list_all (\<lambda>m. m \<in> set (methods t)) (methods u)"

definition ctxType :: rtype where
  "ctxType = InterfaceT ''context.Context'' [''Deadline'', ''Done'', ''Err'', ''Value'']"

definition errType :: rtype where
  "errType = InterfaceT ''error'' [''Error'']"

fun show_digit :: "nat \<Rightarrow> char" where
  "show_digit n = char_of (48 + n)"

fun show_nat :: "nat \<Rightarrow> string" where
  "show_nat n = (if n < 10 then [show_digit n] else show_nat (n div 10) @ [show_digit (n mod 10)])"

declare show_nat.simps [simp del]

fun join :: "string list \<Rightarrow> string \<Rightarrow> string" where
  "join [] sep = []"
| "join [s] sep = s"
| "join (s # ss) sep = s @ sep @ join ss sep"

text \<open>\<^verbatim>\<open>Type.String()\<close>, which \<^verbatim>\<open>%v\<close> prints.\<close>

fun rtype_String :: "rtype \<Rightarrow> string" where
  "rtype_String BoolT = ''bool''"
| "rtype_String IntT = ''int''"
| "rtype_String Uint8T = ''uint8''"
| "rtype_String StringT = ''string''"
| "rtype_String (ArrayT n e) = ''['' @ show_nat n @ '']'' @ rtype_String e"
| "rtype_String (SliceT e) = ''[]'' @ rtype_String e"
| "rtype_String (PtrT e) = ''*'' @ rtype_String e"
| "rtype_String (FuncT ins outs) =
     ''func('' @ join (map rtype_String ins) '', '' @ '')'' @
     (case outs of
        [] \<Rightarrow> []
      | [t] \<Rightarrow> '' '' @ rtype_String t
      | _ \<Rightarrow> '' ('' @ join (map rtype_String outs) '', '' @ '')'')"
| "rtype_String (InterfaceT name ms) = name"
| "rtype_String (StructT name ms) = name"

subsection \<open>Errors, times, headers, contexts and values\<close>

text \<open>
  A Go \<^verbatim>\<open>error\<close> that is not nil: one made by \<^verbatim>\<open>errors.New\<close> or \<^verbatim>\<open>fmt.Errorf\<close> (its
  message), or a \<^verbatim>\<open>*time.ParseError\<close> (Layout, Value, LayoutElem, ValueElem, Message).
  A nil error is \<open>None\<close> of \<open>error option\<close>.
\<close>

datatype error =
    errorString string
  | ParseError string string string string string

definition quote :: "string \<Rightarrow> string" where
  "quote s = [CHR 0x22] @ s @ [CHR 0x22]"

fun Error :: "error \<Rightarrow> string" where
  "Error (errorString s) = s"
| "Error (ParseError layout v layoutElem valueElem msg) =
     (if msg = [] then
        ''parsing time '' @ quote v @ '' as '' @ quote layout @ '': cannot parse '' @
        quote valueElem @ '' as '' @ quote layoutElem
      else ''parsing time '' @ quote v @ msg)"

text \<open>A \<^verbatim>\<open>time.Time\<close>: the civil reading and the zone offset in seconds east of UTC.
  The zero value is January 1 of year 1, 00:00:00 UTC.\<close>

record Time =
  year :: nat
  month :: nat
  day :: nat
  hour :: nat
  minute :: nat
  second :: nat
  nanosecond :: nat
  zoneOffset :: int

definition zeroTime :: Time where
  "zeroTime = \<lparr>year = 1, month = 1, day = 1, hour = 0, minute = 0, second = 0,
     nanosecond = 0, zoneOffset = 0\<rparr>"

text \<open>\<^verbatim>\<open>http.Header\<close> is \<^verbatim>\<open>map[string][]string\<close>; \<^verbatim>\<open>Get\<close> and \<^verbatim>\<open>Set\<close> use the canonical
  form of the key (\<^verbatim>\<open>textproto.CanonicalMIMEHeaderKey\<close>): a key with a byte that is not
  a token byte stays as it is, otherwise the first letter and every letter after a hyphen
  is upper case and the others are lower case.\<close>

type_synonym Header = "string \<rightharpoonup> string list"

definition isLower :: "char \<Rightarrow> bool" where
  "isLower c = (97 \<le> (of_char c :: nat) \<and> (of_char c :: nat) \<le> 122)"

definition isUpper :: "char \<Rightarrow> bool" where
  "isUpper c = (65 \<le> (of_char c :: nat) \<and> (of_char c :: nat) \<le> 90)"

definition isDigit :: "char \<Rightarrow> bool" where
  "isDigit c = (48 \<le> (of_char c :: nat) \<and> (of_char c :: nat) \<le> 57)"

definition validHeaderFieldByte :: "char \<Rightarrow> bool" where
  "validHeaderFieldByte c =
     (isLower c \<or> isUpper c \<or> isDigit c \<or>
      (of_char c :: nat) \<in> set [0x21, 0x23, 0x24, 0x25, 0x26, 0x27, 0x2A, 0x2B, 0x2D, 0x2E,
                                0x5E, 0x5F, 0x60, 0x7C, 0x7E])"

fun canonicalize :: "bool \<Rightarrow> string \<Rightarrow> string" where
  "canonicalize upper [] = []"
| "canonicalize upper (c # cs) =
     (let c' = (if upper \<and> isLower c then char_of ((of_char c :: nat) - 32)
                else if \<not> upper \<and> isUpper c then char_of ((of_char c :: nat) + 32)
                else c)
      in c' # canonicalize (c' = CHR ''-'') cs)"

definition CanonicalMIMEHeaderKey :: "string \<Rightarrow> string" where
  "CanonicalMIMEHeaderKey s = (if list_all validHeaderFieldByte s then canonicalize True s else s)"

definition Header_Get :: "Header \<Rightarrow> string \<Rightarrow> string" where
  "Header_Get h k =
     (case h (CanonicalMIMEHeaderKey k) of
        None \<Rightarrow> []
      | Some [] \<Rightarrow> []
      | Some (v # vs) \<Rightarrow> v)"

definition Header_Set :: "Header \<Rightarrow> string \<Rightarrow> string \<Rightarrow> Header" where
  "Header_Set h k v = h(CanonicalMIMEHeaderKey k \<mapsto> [v])"

text \<open>\<^verbatim>\<open>CloudEventContext\<close> of \<^verbatim>\<open>efgh.go\<close>; \<^verbatim>\<open>json.RawMessage\<close> is a byte slice.\<close>

record CloudEventContext =
  EventType :: string
  EventTypeVersion :: string
  CloudEventsVersion :: string
  Source :: string
  EventID :: string
  EventTime :: Time
  SchemaURL :: string
  ContentType :: string
  Extensions :: "string \<rightharpoonup> bytes"

definition zeroCloudEventContext :: CloudEventContext where
  "zeroCloudEventContext =
     \<lparr>EventType = [], EventTypeVersion = [], CloudEventsVersion = [], Source = [],
      EventID = [], EventTime = zeroTime, SchemaURL = [], ContentType = [],
      Extensions = Map.empty\<rparr>"

text \<open>
  Context keys are compared as interface values, by dynamic type and value: a key of the
  package's unexported type \<^verbatim>\<open>key\<close> (an \<^verbatim>\<open>int\<close>), or a key of some other package.
  A context is a chain of \<^verbatim>\<open>context.WithValue\<close> over a root; deadlines and cancellation play
  no part in the package. A value (an \<^verbatim>\<open>interface{}\<close> or a \<^verbatim>\<open>reflect.Value\<close>) is nil, a
  context, a byte slice, a struct of a named type (with an opaque content), an error
  that is not nil, a \<^verbatim>\<open>CloudEventContext\<close>, an \<^verbatim>\<open>http.Header\<close>, or the zero value of some
  other type. The assertion \<^verbatim>\<open>.(error)\<close> holds for the errors and for no other value; a
  nil pointer of a type with an \<^verbatim>\<open>Error\<close> method is not among the values.
\<close>

datatype ctxKey = key int | foreignKey string

datatype Context =
    Background
  | WithValue Context ctxKey "Value"
and Value =
    NilV
  | CtxV Context
  | BytesV bytes
  | StructV string bytes
  | ErrorV error
  | CloudEventContextV CloudEventContext
  | HeaderV Header
  | ZeroV rtype

text \<open>\<^verbatim>\<open>ctx.Value(k)\<close>: the value of the innermost layer with that key, nil without one.\<close>

fun ctx_Value :: "Context \<Rightarrow> ctxKey \<Rightarrow> Value" where
  "ctx_Value Background k = NilV"
| "ctx_Value (WithValue parent k' v) k = (if k = k' then v else ctx_Value parent k)"

text \<open>\<^verbatim>\<open>var contextKey key\<close> (\<^verbatim>\<open>efgh.go\<close>) and \<^verbatim>\<open>var headerKey key\<close> (the draft): the zero
  value of the type \<^verbatim>\<open>key\<close>.\<close>

definition contextKey :: ctxKey where
  "contextKey = key 0"

definition headerKey :: ctxKey where
  "headerKey = key 0"

text \<open>\<^verbatim>\<open>reflect.New(t).Elem()\<close> of a fresh pointer: the zero value of the type.\<close>

fun Zero :: "rtype \<Rightarrow> Value" where
  "Zero (InterfaceT name ms) = NilV"
| "Zero (SliceT e) = (if Kind e = KUint8 then BytesV [] else ZeroV (SliceT e))"
| "Zero t = ZeroV t"

subsection \<open>Requests, response writers, the standard library\<close>

text \<open>A request body is a reader, given by what \<^verbatim>\<open>ioutil.ReadAll\<close> returns on it.\<close>

record Reader =
  data :: bytes
  failure :: "error option"

definition ioutil_ReadAll :: "Reader \<Rightarrow> bytes \<times> error option" where
  "ioutil_ReadAll r = (data r, failure r)"

record Request =
  Method :: string
  Header :: Header
  Body :: Reader
  Ctx :: Context

text \<open>An \<^verbatim>\<open>http.ResponseWriter\<close>: the header map as the handler sets it (the server adds
  headers of its own on the wire), the status once written, the body so far.
  \<^verbatim>\<open>WriteHeader\<close> after the status is written changes nothing; \<^verbatim>\<open>Write\<close> writes the
  status 200 first when none is written.\<close>

record ResponseWriter =
  rw_Header :: Header
  rw_status :: "nat option"
  rw_body :: bytes

definition newResponseWriter :: ResponseWriter where
  "newResponseWriter = \<lparr>rw_Header = Map.empty, rw_status = None, rw_body = []\<rparr>"

definition WriteHeader :: "nat \<Rightarrow> ResponseWriter \<Rightarrow> ResponseWriter" where
  "WriteHeader code rw = (case rw_status rw of None \<Rightarrow> rw\<lparr>rw_status := Some code\<rparr> | Some c \<Rightarrow> rw)"

definition Write :: "bytes \<Rightarrow> ResponseWriter \<Rightarrow> ResponseWriter" where
  "Write b rw = (let rw' = WriteHeader 200 rw in rw'\<lparr>rw_body := rw_body rw' @ b\<rparr>)"

definition WriteString :: "string \<Rightarrow> ResponseWriter \<Rightarrow> ResponseWriter" where
  "WriteString s rw = Write s rw"

text \<open>
  The functions of the standard library whose results the package only passes on:
  \<^verbatim>\<open>time.Parse\<close> with the layout \<^verbatim>\<open>time.RFC3339\<close>, \<^verbatim>\<open>json.Unmarshal\<close> into a fresh value of a type and
  \<^verbatim>\<open>json.Marshal\<close>. The package's functions take them as an argument, so that a theorem
  holds for whatever they return.
\<close>

record stdlib =
  time_Parse_RFC3339 :: "string \<Rightarrow> error + Time"
  json_Unmarshal :: "bytes \<Rightarrow> rtype \<Rightarrow> error + Value"
  json_Marshal :: "Value \<Rightarrow> error + bytes"

definition RFC3339 :: string where
  "RFC3339 = ''2006-01-02T15:04:05Z07:00''"

text \<open>A Go call returns or panics.\<close>

datatype 'a outcome = Returns 'a | Panics string

subsection \<open>\<^verbatim>\<open>handler.go\<close>: \<^verbatim>\<open>functionHandler\<close> and \<^verbatim>\<open>wrap\<close>\<close>

text \<open>
  The user's function is what \<^verbatim>\<open>reflect.Value.Call\<close> makes of it: argument values to
  result values. Its own effects are outside the model; every call made is recorded,
  with its arguments, in the list of calls that \<open>Invoke\<close> and \<open>ServeHTTP\<close> return.
\<close>

type_synonym callable = "Value list \<Rightarrow> Value list"

record functionHandler =
  f :: callable
  needsContext :: bool
  hasError :: bool
  inType :: "rtype option"
  outType :: "rtype option"

text \<open>The argument of \<^verbatim>\<open>wrap\<close>, an \<^verbatim>\<open>interface{}\<close>: nil, or a value with its dynamic type
  (and, for a function, what calling it does).\<close>

datatype iface = NilIface | Iface rtype callable

text \<open>\<^verbatim>\<open>reflect.TypeOf(nil)\<close> is a nil \<^verbatim>\<open>Type\<close>, and \<^verbatim>\<open>t.Kind()\<close> on it panics.\<close>

definition wrap :: "iface \<Rightarrow> (error + functionHandler) outcome" where
  "wrap function =
     (case function of
        NilIface \<Rightarrow> Panics ''nil pointer dereference''
      | Iface t fn \<Rightarrow>
          Returns
           (let h = \<lparr>f = fn, needsContext = False, hasError = False, inType = None, outType = None\<rparr> in
            if Kind t \<noteq> KFunc then Inl (errorString (rtype_String t @ '' is not a function''))
            else if NumIn t > 2 then Inl (errorString (rtype_String t @ '' takes too many arguments''))
            else
              let h = (if NumIn t > 0
                       then (if Implements (ins_of t ! 0) ctxType then h\<lparr>needsContext := True\<rparr>
                             else h\<lparr>inType := Some (ins_of t ! 0)\<rparr>)
                       else h) in
              if NumIn t = 2 \<and> \<not> needsContext h
              then Inl (errorString (''First argument must be of type context.Context: '' @ rtype_String t))
              else
                let h = (if NumIn t = 2 then h\<lparr>inType := Some (ins_of t ! 1)\<rparr> else h) in
                if NumOut t > 2 then Inl (errorString (rtype_String t @ '' returns too many outputs''))
                else
                  let h = (if NumOut t > 0
                           then (if Implements (outs_of t ! 0) errType then h\<lparr>hasError := True\<rparr>
                                 else h\<lparr>outType := Some (outs_of t ! 0)\<rparr>)
                           else h) in
                  if NumOut t = 2 \<and> (hasError h \<or> \<not> Implements (outs_of t ! 1) errType)
                  then Inl (errorString (''Must return (data, error) with two arguments: '' @ rtype_String t))
                  else
                    let h = (if NumOut t = 2 then h\<lparr>hasError := True\<rparr> else h) in
                    Inr h))"

subsection \<open>\<^verbatim>\<open>handler.go\<close>: \<^verbatim>\<open>Invoke\<close>\<close>

text \<open>Lines 29 to 46: the arguments of the call, or the error returned before any call.\<close>

definition Invoke_args :: "stdlib \<Rightarrow> functionHandler \<Rightarrow> Context \<Rightarrow> bytes \<Rightarrow> error + Value list" where
  "Invoke_args L fh ctx inb =
     (let args = (if needsContext fh then [CtxV ctx] else []) in
      case inType fh of
        None \<Rightarrow> Inr args
      | Some t \<Rightarrow>
          if isByteSlice t then Inr (args @ [BytesV inb])
          else if Kind t = KStruct then
            (case json_Unmarshal L inb t of
               Inl err \<Rightarrow> Inl err
             | Inr d \<Rightarrow> Inr (args @ [d]))
          else Inl (errorString (''Unable to unmarshall type: '' @ rtype_String t)))"

text \<open>
  Lines 49 to 57: \<open>out\<close> and \<open>err\<close> after the output type is looked at, or the early
  return for an output type that is neither a byte slice nor a struct. \<^verbatim>\<open>response[0]\<close>
  panics on an empty response and \<^verbatim>\<open>Bytes()\<close> on a value that is not a byte slice.
\<close>

datatype encoded = Early error | Encoded bytes "error option"

definition Invoke_out :: "stdlib \<Rightarrow> functionHandler \<Rightarrow> Value list \<Rightarrow> encoded outcome" where
  "Invoke_out L fh response =
     (case outType fh of
        None \<Rightarrow> Returns (Encoded [] None)
      | Some t \<Rightarrow>
          if isByteSlice t then
            (case response of
               [] \<Rightarrow> Panics ''index out of range''
             | BytesV b # rs \<Rightarrow> Returns (Encoded b None)
             | r # rs \<Rightarrow> Panics ''Bytes of a value that is no byte slice'')
          else if Kind t = KStruct then
            (case response of
               [] \<Rightarrow> Panics ''index out of range''
             | r # rs \<Rightarrow>
                 (case json_Marshal L r of
                    Inl err \<Rightarrow> Returns (Encoded [] (Some err))
                  | Inr b \<Rightarrow> Returns (Encoded b None)))
          else Returns (Early (errorString (''Unable to marshal type: '' @ rtype_String t))))"

text \<open>
  Lines 58 to 64. \<^verbatim>\<open>err, ok = response[len(response)-1].Interface().(error)\<close> assigns
  \<open>err\<close> in both cases: the error when the last result is an error that is not nil, and
  nil (the zero value of the asserted type) when the assertion fails.
\<close>

definition Invoke_err :: "functionHandler \<Rightarrow> Value list \<Rightarrow> bytes \<Rightarrow> error option \<Rightarrow> (bytes \<times> error option) outcome" where
  "Invoke_err fh response out err =
     (if hasError fh then
        (if response = [] then Panics ''index out of range''
         else (case last response of
                 ErrorV e \<Rightarrow> Returns (out, Some e)
               | v \<Rightarrow> Returns (out, None)))
      else Returns (out, err))"

definition Invoke :: "stdlib \<Rightarrow> functionHandler \<Rightarrow> Context \<Rightarrow> bytes \<Rightarrow> (bytes \<times> error option) outcome \<times> Value list list" where
  "Invoke L fh ctx inb =
     (case Invoke_args L fh ctx inb of
        Inl err \<Rightarrow> (Returns ([], Some err), [])
      | Inr args \<Rightarrow>
          (let response = f fh args in
           case Invoke_out L fh response of
             Panics m \<Rightarrow> (Panics m, [args])
           | Returns (Early err) \<Rightarrow> (Returns ([], Some err), [args])
           | Returns (Encoded out err) \<Rightarrow> (Invoke_err fh response out err, [args])))"

subsection \<open>\<^verbatim>\<open>handler.go\<close>: the decoders and \<^verbatim>\<open>ServeHTTP\<close>\<close>

text \<open>Both decoders return \<^verbatim>\<open>(nil, nil, err)\<close> or \<^verbatim>\<open>(in, ctx, nil)\<close>: a sum.\<close>

definition convertStructured :: "Request \<Rightarrow> error + bytes \<times> Context" where
  "convertStructured req = Inl (errorString ''structured output not supported yet'')"

definition convertBinary :: "stdlib \<Rightarrow> Request \<Rightarrow> error + bytes \<times> Context" where
  "convertBinary L req =
     (let cex = \<lparr>EventType = Header_Get (Header req) ''CE-EventType'',
                 EventTypeVersion = Header_Get (Header req) ''CE-EventTypeVersion'',
                 CloudEventsVersion = Header_Get (Header req) ''CE-CloudEventsVersion'',
                 Source = Header_Get (Header req) ''CE-Source'',
                 EventID = Header_Get (Header req) ''CE-EventID'',
                 EventTime = zeroTime,
                 SchemaURL = Header_Get (Header req) ''CE-SchemaURL'',
                 ContentType = Header_Get (Header req) ''Content-Type'',
                 Extensions = Map.empty\<rparr>;
          ts = Header_Get (Header req) ''CE-EventTime''
      in
      case (if ts \<noteq> [] then
              (case time_Parse_RFC3339 L (Header_Get (Header req) ''CE-EventTime'') of
                 Inl err \<Rightarrow> Inl err
               | Inr t \<Rightarrow> Inr (cex\<lparr>EventTime := t\<rparr>))
            else Inr cex) of
        Inl err \<Rightarrow> Inl err
      | Inr cex \<Rightarrow>
          (let ctx = WithValue (Ctx req) contextKey (CloudEventContextV cex) in
           case ioutil_ReadAll (Body req) of
             (inb, Some err) \<Rightarrow> Inl err
           | (inb, None) \<Rightarrow> Inr (inb, ctx)))"

definition StatusOK :: nat where "StatusOK = 200"
definition StatusMethodNotAllowed :: nat where "StatusMethodNotAllowed = 405"
definition StatusExpectationFailed :: nat where "StatusExpectationFailed = 417"
definition StatusInternalServerError :: nat where "StatusInternalServerError = 500"

text \<open>Lines 88 to 96, shared with the draft: the response for what \<open>Invoke\<close> returned.
  A panic of the call passes through.\<close>

definition respond :: "ResponseWriter \<Rightarrow> (bytes \<times> error option) outcome \<times> Value list list \<Rightarrow> ResponseWriter outcome \<times> Value list list" where
  "respond rw r =
     (case r of
        (Panics m, calls) \<Rightarrow> (Panics m, calls)
      | (Returns (out, Some err), calls) \<Rightarrow>
          (Returns (WriteString (Error err) (WriteHeader StatusInternalServerError rw)), calls)
      | (Returns (out, None), calls) \<Rightarrow>
          (Returns (Write out (WriteHeader StatusOK rw)), calls))"

definition ServeHTTP :: "stdlib \<Rightarrow> functionHandler \<Rightarrow> ResponseWriter \<Rightarrow> Request \<Rightarrow> ResponseWriter outcome \<times> Value list list" where
  "ServeHTTP L fh rw req =
     (if Method req \<noteq> ''POST'' then (Returns (WriteHeader StatusMethodNotAllowed rw), [])
      else
        case (if prefix ''application/cloudevents'' (Header_Get (Header req) ''Content-Type'')
              then convertStructured req
              else convertBinary L req) of
          Inl err \<Rightarrow>
            (Returns (WriteString (Error err)
                       (WriteHeader StatusExpectationFailed
                         (rw\<lparr>rw_Header := Header_Set (rw_Header rw) ''Content-Type'' ''text/plain''\<rparr>))), [])
        | Inr (inb, ctx) \<Rightarrow> respond rw (Invoke L fh ctx inb))"

subsection \<open>\<^verbatim>\<open>efgh.go\<close>: \<^verbatim>\<open>CloudEvent\<close> and \<^verbatim>\<open>Start\<close>\<close>

definition CloudEvent :: "Context \<Rightarrow> CloudEventContext \<times> bool" where
  "CloudEvent ctx =
     (case ctx_Value ctx contextKey of
        CloudEventContextV r \<Rightarrow> (r, True)
      | v \<Rightarrow> (zeroCloudEventContext, False))"




subsection \<open>The draft: headers in the context, \<^verbatim>\<open>EventTime\<close> and \<^verbatim>\<open>EventId\<close>\<close>

text \<open>
  The draft's handler type is \<^verbatim>\<open>FunctionHandler\<close>, with the fields of \<^verbatim>\<open>functionHandler\<close>.
  Its \<^verbatim>\<open>Invoke\<close> never sets \<open>out\<close>; it passes the zero value of a parameter type that is
  not a struct, and \<^verbatim>\<open>data.SetBytes\<close> on the pointer that \<^verbatim>\<open>reflect.New\<close> returned panics.
  The accessor \<^verbatim>\<open>EventTime\<close> is \<open>EventTime_accessor\<close> here, next to the field \<open>EventTime\<close>.
\<close>

definition FunctionHandler_Invoke :: "stdlib \<Rightarrow> functionHandler \<Rightarrow> Context \<Rightarrow> bytes \<Rightarrow> (bytes \<times> error option) outcome \<times> Value list list" where
  "FunctionHandler_Invoke L fh ctx inb =
     (let args = (if needsContext fh then [CtxV ctx] else []) in
      case (case inType fh of
              None \<Rightarrow> Returns (Inr args)
            | Some t \<Rightarrow>
                if Kind t = KStruct then
                  (case json_Unmarshal L inb t of
                     Inl err \<Rightarrow> Returns (Inl err)
                   | Inr d \<Rightarrow> Returns (Inr (args @ [d])))
                else if isByteArray t then
                  Panics ''SetBytes of a pointer''
                else Returns (Inr (args @ [Zero t]))) of
        Panics m \<Rightarrow> (Panics m, [])
      | Returns (Inl err) \<Rightarrow> (Returns ([], Some err), [])
      | Returns (Inr args) \<Rightarrow>
          (let response = f fh args;
               i = (if outType fh \<noteq> None then 1 else 0 :: nat)
           in
           if outType fh \<noteq> None \<and> response = [] then (Panics ''index out of range'', [args])
           else if hasError fh then
             (if i < length response then
                (case response ! i of
                   ErrorV e \<Rightarrow> (Returns ([], Some e), [args])
                 | v \<Rightarrow> (Returns ([], None), [args]))
              else (Panics ''index out of range'', [args]))
           else (Returns ([], None), [args])))"

definition FunctionHandler_ServeHTTP :: "stdlib \<Rightarrow> functionHandler \<Rightarrow> ResponseWriter \<Rightarrow> Request \<Rightarrow> ResponseWriter outcome \<times> Value list list" where
  "FunctionHandler_ServeHTTP L fh rw req =
     (if Method req \<noteq> ''POST'' then (Returns (WriteHeader StatusMethodNotAllowed rw), [])
      else
        let ctx = WithValue (Ctx req) headerKey (HeaderV (Header req)) in
        case ioutil_ReadAll (Body req) of
          (inb, Some err) \<Rightarrow> (Returns (WriteHeader StatusExpectationFailed rw), [])
        | (inb, None) \<Rightarrow> respond rw (FunctionHandler_Invoke L fh ctx inb))"

definition getHeader :: "Context \<Rightarrow> string \<Rightarrow> string" where
  "getHeader ctx k =
     (case ctx_Value ctx headerKey of
        HeaderV h \<Rightarrow> Header_Get h k
      | v \<Rightarrow> [])"

definition EventTime_accessor :: "stdlib \<Rightarrow> Context \<Rightarrow> error + Time" where
  "EventTime_accessor L ctx = time_Parse_RFC3339 L (getHeader ctx ''Ce-Eventtime'')"

definition EventId :: "Context \<Rightarrow> string" where
  "EventId ctx = getHeader ctx ''Ce-Eventid''"

subsection \<open>A model of \<^verbatim>\<open>time.Parse\<close> for the layout \<^verbatim>\<open>time.RFC3339\<close>\<close>

text \<open>
  The package passes on what \<^verbatim>\<open>time.Parse(time.RFC3339, s)\<close> returns and the theorems about
  it hold for every parser. This model of the standard library's function is the parser
  of the concrete examples. It follows the library's loop over the elements of the
  layout \<^verbatim>\<open>2006-01-02T15:04:05Z07:00\<close>: a four digit year, two digit month and day, an hour
  of one or two digits, two digit minute and second, an optional fraction after the
  seconds, and the zone \<^verbatim>\<open>Z\<close> or a signed \<^verbatim>\<open>hh:mm\<close>; what is left over is an error, and the
  day is checked against the month at the end.
\<close>

definition digitVal :: "char \<Rightarrow> nat" where
  "digitVal c = (of_char c :: nat) - 48"

definition atoi :: "string \<Rightarrow> nat" where
  "atoi s = foldl (\<lambda>a c. a * 10 + digitVal c) 0 s"

definition getnum :: "string \<Rightarrow> bool \<Rightarrow> (nat \<times> string) option" where
  "getnum s fixed =
     (case s of
        [] \<Rightarrow> None
      | c # r \<Rightarrow>
          if \<not> isDigit c then None
          else (case r of
                  [] \<Rightarrow> if fixed then None else Some (digitVal c, r)
                | d # r' \<Rightarrow>
                    if \<not> isDigit d then (if fixed then None else Some (digitVal c, r))
                    else Some (digitVal c * 10 + digitVal d, r')))"

definition errBad :: "string \<Rightarrow> string \<Rightarrow> string \<Rightarrow> error" where
  "errBad avalue elem v = ParseError RFC3339 avalue elem v []"

definition errRange :: "string \<Rightarrow> string \<Rightarrow> string \<Rightarrow> string \<Rightarrow> error" where
  "errRange avalue elem v what = ParseError RFC3339 avalue elem v ('': '' @ what @ '' out of range'')"

type_synonym pstate = "Time \<times> string"

definition literal :: "string \<Rightarrow> string \<Rightarrow> pstate \<Rightarrow> error + pstate" where
  "literal p avalue st =
     (case st of (t, v) \<Rightarrow>
        if prefix p v then Inr (t, drop (length p) v) else Inl (errBad avalue p v))"

definition stdLongYear :: "string \<Rightarrow> pstate \<Rightarrow> error + pstate" where
  "stdLongYear avalue st =
     (case st of (t, v) \<Rightarrow>
        if length v < 4 \<or> \<not> list_all isDigit (take 4 v) then Inl (errBad avalue ''2006'' v)
        else Inr (t\<lparr>year := atoi (take 4 v)\<rparr>, drop 4 v))"

definition stdZeroMonth :: "string \<Rightarrow> pstate \<Rightarrow> error + pstate" where
  "stdZeroMonth avalue st =
     (case st of (t, v) \<Rightarrow>
        (case getnum v True of
           None \<Rightarrow> Inl (errBad avalue ''01'' v)
         | Some (m, v') \<Rightarrow>
             if m = 0 \<or> 12 < m then Inl (errRange avalue ''01'' v' ''month'')
             else Inr (t\<lparr>month := m\<rparr>, v')))"

definition stdZeroDay :: "string \<Rightarrow> pstate \<Rightarrow> error + pstate" where
  "stdZeroDay avalue st =
     (case st of (t, v) \<Rightarrow>
        (case getnum v True of
           None \<Rightarrow> Inl (errBad avalue ''02'' v)
         | Some (d, v') \<Rightarrow> Inr (t\<lparr>day := d\<rparr>, v')))"

definition stdHour :: "string \<Rightarrow> pstate \<Rightarrow> error + pstate" where
  "stdHour avalue st =
     (case st of (t, v) \<Rightarrow>
        (case getnum v False of
           None \<Rightarrow> Inl (errBad avalue ''15'' v)
         | Some (h, v') \<Rightarrow>
             if 24 \<le> h then Inl (errRange avalue ''15'' v' ''hour'')
             else Inr (t\<lparr>hour := h\<rparr>, v')))"

definition stdZeroMinute :: "string \<Rightarrow> pstate \<Rightarrow> error + pstate" where
  "stdZeroMinute avalue st =
     (case st of (t, v) \<Rightarrow>
        (case getnum v True of
           None \<Rightarrow> Inl (errBad avalue ''04'' v)
         | Some (m, v') \<Rightarrow>
             if 60 \<le> m then Inl (errRange avalue ''04'' v' ''minute'')
             else Inr (t\<lparr>minute := m\<rparr>, v')))"

definition commaOrPeriod :: "char \<Rightarrow> bool" where
  "commaOrPeriod c = (c = CHR ''.'' \<or> c = CHR '','')"

text \<open>The fraction: at most nine digits count, scaled to nanoseconds.\<close>

definition parseNanoseconds :: "string \<Rightarrow> nat" where
  "parseNanoseconds digits = atoi (take 9 digits) * 10 ^ (9 - length (take 9 digits))"

definition stdZeroSecond :: "string \<Rightarrow> pstate \<Rightarrow> error + pstate" where
  "stdZeroSecond avalue st =
     (case st of (t, v) \<Rightarrow>
        (case getnum v True of
           None \<Rightarrow> Inl (errBad avalue ''05'' v)
         | Some (s, v') \<Rightarrow>
             if 60 \<le> s then Inl (errRange avalue ''05'' v' ''second'')
             else
               (case v' of
                  c # d # r \<Rightarrow>
                    if commaOrPeriod c \<and> isDigit d then
                      Inr (t\<lparr>second := s, nanosecond := parseNanoseconds (takeWhile isDigit (d # r))\<rparr>,
                           dropWhile isDigit (d # r))
                    else Inr (t\<lparr>second := s\<rparr>, v')
                | _ \<Rightarrow> Inr (t\<lparr>second := s\<rparr>, v'))))"

definition stdISO8601ColonTZ :: "string \<Rightarrow> pstate \<Rightarrow> error + pstate" where
  "stdISO8601ColonTZ avalue st =
     (case st of (t, v) \<Rightarrow>
        if prefix ''Z'' v then Inr (t\<lparr>zoneOffset := 0\<rparr>, drop 1 v)
        else if length v < 6 then Inl (errBad avalue ''Z07:00'' v)
        else if v ! 3 \<noteq> CHR '':'' then Inl (errBad avalue ''Z07:00'' v)
        else
          (case (getnum (take 2 (drop 1 v)) True, getnum (take 2 (drop 4 v)) True) of
             (Some (hr, r1), Some (mm, r2)) \<Rightarrow>
               if 24 < hr then Inl (errRange avalue ''Z07:00'' (drop 6 v) ''time zone offset hour'')
               else if 60 < mm then Inl (errRange avalue ''Z07:00'' (drop 6 v) ''time zone offset minute'')
               else if v ! 0 = CHR ''+'' then Inr (t\<lparr>zoneOffset := int ((hr * 60 + mm) * 60)\<rparr>, drop 6 v)
               else if v ! 0 = CHR ''-'' then Inr (t\<lparr>zoneOffset := - int ((hr * 60 + mm) * 60)\<rparr>, drop 6 v)
               else Inl (errBad avalue ''Z07:00'' v)
           | _ \<Rightarrow> Inl (errBad avalue ''Z07:00'' v)))"

definition andThen :: "error + 'a \<Rightarrow> ('a \<Rightarrow> error + 'a) \<Rightarrow> error + 'a" where
  "andThen r step = (case r of Inl err \<Rightarrow> Inl err | Inr x \<Rightarrow> step x)"

definition isLeap :: "nat \<Rightarrow> bool" where
  "isLeap y = (y mod 4 = 0 \<and> (y mod 400 = 0 \<or> y mod 100 \<noteq> 0))"

definition daysIn :: "nat \<Rightarrow> nat \<Rightarrow> nat" where
  "daysIn m y =
     (if m = 2 \<and> isLeap y then 29
      else [31, 28, 31, 30, 31, 30, 31, 31, 30, 31, 30, 31] ! (m - 1))"

definition parseRFC3339 :: "string \<Rightarrow> error + Time" where
  "parseRFC3339 avalue =
     (case foldl andThen (Inr (zeroTime, avalue))
             [stdLongYear avalue, literal ''-'' avalue, stdZeroMonth avalue, literal ''-'' avalue,
              stdZeroDay avalue, literal ''T'' avalue, stdHour avalue, literal '':'' avalue,
              stdZeroMinute avalue, literal '':'' avalue, stdZeroSecond avalue,
              stdISO8601ColonTZ avalue] of
        Inl err \<Rightarrow> Inl err
      | Inr (t, v) \<Rightarrow>
          if v \<noteq> [] then Inl (ParseError RFC3339 avalue [] v ('': extra text: '' @ quote v))
          else if day t < 1 \<or> daysIn (month t) (year t) < day t
          then Inl (ParseError RFC3339 avalue [] v '': day out of range'')
          else Inr t)"

text \<open>The standard library of the examples: the parser above, and a JSON codec for
  structs whose content is their JSON text; it encodes no other value.\<close>

definition exampleLib :: stdlib where
  "exampleLib =
     \<lparr>time_Parse_RFC3339 = parseRFC3339,
      json_Unmarshal = (\<lambda>b t. Inr (StructV (rtype_String t) b)),
      json_Marshal = (\<lambda>v. case v of
                              StructV name b \<Rightarrow> Inr b
                            | u \<Rightarrow> Inl (errorString ''json: unsupported type''))\<rparr>"

subsection \<open>The specification's signature shapes\<close>

text \<open>
  The specification's words, for comparison with \<open>wrap\<close>. \<open>Ctx\<close> is a type with the
  context capability, \<open>Err\<close> a type with the error capability, \<open>Data\<close> a byte sequence or a
  record. The legal parameter lists are \<open>()\<close>, \<open>(Ctx)\<close>, \<open>(Data)\<close>, \<open>(Ctx, Data)\<close> and the legal
  return lists \<open>()\<close>, \<open>(Err)\<close>, \<open>(Data)\<close>, \<open>(Data, Err)\<close>, where the first of two returns has
  not the error capability.
\<close>

definition isCtx :: "rtype \<Rightarrow> bool" where
  "isCtx t = Implements t ctxType"

definition isErr :: "rtype \<Rightarrow> bool" where
  "isErr t = Implements t errType"

definition isData :: "rtype \<Rightarrow> bool" where
  "isData t = (isByteSlice t \<or> Kind t = KStruct)"

fun legalParams :: "rtype list \<Rightarrow> bool" where
  "legalParams [] = True"
| "legalParams [t] = (isCtx t \<or> isData t)"
| "legalParams [c, d] = (isCtx c \<and> isData d)"
| "legalParams ts = False"

fun legalReturns :: "rtype list \<Rightarrow> bool" where
  "legalReturns [] = True"
| "legalReturns [t] = (isErr t \<or> isData t)"
| "legalReturns [d, e] = (isData d \<and> \<not> isErr d \<and> isErr e)"
| "legalReturns ts = False"

text \<open>The data parameter and the data return of a list, if it has one.\<close>

fun dataParam :: "rtype list \<Rightarrow> rtype option" where
  "dataParam [t] = (if isCtx t then None else Some t)"
| "dataParam [c, d] = Some d"
| "dataParam ts = None"

fun dataReturn :: "rtype list \<Rightarrow> rtype option" where
  "dataReturn [t] = (if isErr t then None else Some t)"
| "dataReturn [d, e] = Some d"
| "dataReturn ts = None"

text \<open>The shapes by count and position alone, whatever the kind of the data type.\<close>

fun placedParams :: "rtype list \<Rightarrow> bool" where
  "placedParams [] = True"
| "placedParams [t] = True"
| "placedParams [c, d] = isCtx c"
| "placedParams ts = False"

fun placedReturns :: "rtype list \<Rightarrow> bool" where
  "placedReturns [] = True"
| "placedReturns [t] = True"
| "placedReturns [d, e] = (\<not> isErr d \<and> isErr e)"
| "placedReturns ts = False"

subsection \<open>Contexts that carry a \<^verbatim>\<open>CloudEventContext\<close>\<close>

text \<open>A context has a \<^verbatim>\<open>CloudEventContext\<close> attached when one of its layers holds one under
  the package's key.\<close>

fun isCloudEventContext :: "Value \<Rightarrow> bool" where
  "isCloudEventContext (CloudEventContextV c) = True"
| "isCloudEventContext v = False"

fun attached :: "Context \<Rightarrow> bool" where
  "attached Background = False"
| "attached (WithValue parent k v) = ((k = contextKey \<and> isCloudEventContext v) \<or> attached parent)"

subsection \<open>Example values\<close>

text \<open>The README's \<^verbatim>\<open>func HandleEvent(ctx context.Context, data MyData) error\<close>, which
  returns nil; a function of one \<^verbatim>\<open>int\<close> parameter and no result; and a function
  \<^verbatim>\<open>func() (int, error)\<close> that returns the error \<open>boom\<close>.\<close>

definition MyData :: rtype where
  "MyData = StructT ''main.MyData'' []"

definition HandleEvent :: callable where
  "HandleEvent args = [NilV]"

definition takesInt :: callable where
  "takesInt args = []"

definition failsWithBoom :: callable where
  "failsWithBoom args = [ZeroV IntT, ErrorV (errorString ''boom'')]"

text \<open>A POST request with no header and the body \<open>{}\<close>.\<close>

definition plainPost :: Request where
  "plainPost = \<lparr>Method = ''POST'', Header = Map.empty, Body = \<lparr>data = ''{}'', failure = None\<rparr>,
     Ctx = Background\<rparr>"

text \<open>A POST request in structured mode.\<close>

definition structuredPost :: Request where
  "structuredPost =
     \<lparr>Method = ''POST'',
      Header = [''Content-Type'' \<mapsto> [''application/cloudevents+json'']],
      Body = \<lparr>data = ''{}'', failure = None\<rparr>,
      Ctx = Background\<rparr>"

text \<open>A POST request in binary mode with the event id \<open>abc-123\<close> and an event time, and
  the same request with an event time that is no time.\<close>

definition eventPost :: Request where
  "eventPost =
     \<lparr>Method = ''POST'',
      Header = [''Ce-Eventid'' \<mapsto> [''abc-123''], ''Ce-Eventtime'' \<mapsto> [''2020-01-01T00:00:00Z'']],
      Body = \<lparr>data = ''{}'', failure = None\<rparr>,
      Ctx = Background\<rparr>"

definition badTimePost :: Request where
  "badTimePost =
     \<lparr>Method = ''POST'',
      Header = [''Ce-Eventid'' \<mapsto> [''abc-123''], ''Ce-Eventtime'' \<mapsto> [''yesterday'']],
      Body = \<lparr>data = ''{}'', failure = None\<rparr>,
      Ctx = Background\<rparr>"

text \<open>The handler that \<open>wrap\<close> returns for \<open>HandleEvent\<close>, and the one for \<open>failsWithBoom\<close>.\<close>

definition handleEventHandler :: functionHandler where
  "handleEventHandler =
     \<lparr>f = HandleEvent, needsContext = True, hasError = True, inType = Some MyData, outType = None\<rparr>"

definition boomHandler :: functionHandler where
  "boomHandler =
     \<lparr>f = failsWithBoom, needsContext = False, hasError = True, inType = None, outType = Some IntT\<rparr>"

text \<open>
  \<^verbatim>\<open>func() (Report, error)\<close> for a struct type \<^verbatim>\<open>Report\<close> with a channel field, which
  \<^verbatim>\<open>json.Marshal\<close> refuses; the function returns a report and a nil error. \<open>refusingLib\<close> is
  the example library with that refusal.
\<close>

definition Report :: rtype where
  "Report = StructT ''main.Report'' []"

definition makesReport :: callable where
  "makesReport args = [StructV ''main.Report'' [], NilV]"

definition reportHandler :: functionHandler where
  "reportHandler =
     \<lparr>f = makesReport, needsContext = False, hasError = True, inType = None, outType = Some Report\<rparr>"

definition refusingLib :: stdlib where
  "refusingLib =
     exampleLib\<lparr>json_Marshal := (\<lambda>v. Inl (errorString ''json: unsupported type: chan int''))\<rparr>"



text \<open>Two more functions with a \<^verbatim>\<open>Report\<close>: \<^verbatim>\<open>func() (Report, error)\<close> that returns the error
  \<open>boom\<close>, and \<^verbatim>\<open>func() Report\<close>.\<close>

definition reportFails :: callable where
  "reportFails args = [StructV ''main.Report'' [], ErrorV (errorString ''boom'')]"

definition makesReportOnly :: callable where
  "makesReportOnly args = [StructV ''main.Report'' []]"

text \<open>The \<^verbatim>\<open>CloudEventContext\<close> of \<open>eventPost\<close>.\<close>

definition eventContext :: CloudEventContext where
  "eventContext =
     \<lparr>EventType = [], EventTypeVersion = [], CloudEventsVersion = [], Source = [],
      EventID = ''abc-123'',
      EventTime = \<lparr>year = 2020, month = 1, day = 1, hour = 0, minute = 0, second = 0,
                    nanosecond = 0, zoneOffset = 0\<rparr>,
      SchemaURL = [], ContentType = [], Extensions = Map.empty\<rparr>"

section \<open>Properties\<close>

subsection \<open>Auxiliary facts\<close>

lemmas reflect_defs = NumIn_def NumOut_def isCtx_def isErr_def isData_def

lemmas example_types = MyData_def Report_def ctxType_def errType_def Implements_def
  isCtx_def isErr_def isData_def

lemmas rw_defs = WriteString_def Write_def WriteHeader_def newResponseWriter_def Header_Set_def
  StatusOK_def StatusMethodNotAllowed_def StatusExpectationFailed_def StatusInternalServerError_def

lemma canon_content_type: "CanonicalMIMEHeaderKey ''Content-Type'' = ''Content-Type''"
  by code_simp

lemma decode_error_response:
  "WriteString msg (WriteHeader StatusExpectationFailed
      (newResponseWriter\<lparr>rw_Header := Header_Set (rw_Header newResponseWriter) ''Content-Type'' ''text/plain''\<rparr>)) =
   \<lparr>rw_Header = [''Content-Type'' \<mapsto> [''text/plain'']], rw_status = Some 417, rw_body = msg\<rparr>"
  by (simp add: rw_defs canon_content_type)

lemma wrap_not_func:
  "Kind t \<noteq> KFunc \<Longrightarrow>
   wrap (Iface t fn) = Returns (Inl (errorString (rtype_String t @ '' is not a function'')))"
  by (simp add: wrap_def)

lemma wrap_too_many_in:
  "Kind t = KFunc \<Longrightarrow> 2 < NumIn t \<Longrightarrow>
   wrap (Iface t fn) = Returns (Inl (errorString (rtype_String t @ '' takes too many arguments'')))"
  by (simp add: wrap_def)

lemma wrap_ctx_first:
  "Kind t = KFunc \<Longrightarrow> NumIn t = 2 \<Longrightarrow> \<not> isCtx (ins_of t ! 0) \<Longrightarrow>
   wrap (Iface t fn) =
     Returns (Inl (errorString (''First argument must be of type context.Context: '' @ rtype_String t)))"
  by (simp add: wrap_def isCtx_def)

lemma wrap_too_many_out:
  "Kind t = KFunc \<Longrightarrow> placedParams (ins_of t) \<Longrightarrow> 2 < NumOut t \<Longrightarrow>
   wrap (Iface t fn) = Returns (Inl (errorString (rtype_String t @ '' returns too many outputs'')))"
  by (cases "ins_of t" rule: placedParams.cases) (auto simp: wrap_def reflect_defs)

lemma wrap_error_position:
  "Kind t = KFunc \<Longrightarrow> placedParams (ins_of t) \<Longrightarrow> NumOut t = 2 \<Longrightarrow>
   isErr (outs_of t ! 0) \<or> \<not> isErr (outs_of t ! 1) \<Longrightarrow>
   wrap (Iface t fn) =
     Returns (Inl (errorString (''Must return (data, error) with two arguments: '' @ rtype_String t)))"
  by (cases "ins_of t" rule: placedParams.cases) (auto simp: wrap_def reflect_defs)

lemma wrap_placed:
  "Kind t = KFunc \<Longrightarrow> placedParams (ins_of t) \<Longrightarrow> placedReturns (outs_of t) \<Longrightarrow>
   \<exists>h. wrap (Iface t fn) = Returns (Inr h)"
  by (cases "ins_of t" rule: placedParams.cases; cases "outs_of t" rule: placedReturns.cases)
     (auto simp: wrap_def reflect_defs Let_def)

lemma Invoke_in_unsupported:
  "inType fh = Some d \<Longrightarrow> \<not> isData d \<Longrightarrow>
   Invoke L fh ctx inb =
     (Returns ([], Some (errorString (''Unable to unmarshall type: '' @ rtype_String d))), [])"
  by (simp add: Invoke_def Invoke_args_def isData_def)

lemma Invoke_out_unsupported:
  "Invoke_args L fh ctx inb = Inr args \<Longrightarrow> outType fh = Some d \<Longrightarrow> \<not> isData d \<Longrightarrow>
   Invoke L fh ctx inb =
     (Returns ([], Some (errorString (''Unable to marshal type: '' @ rtype_String d))), [args])"
  by (simp add: Invoke_def Invoke_out_def isData_def)

lemma structuredPost_facts:
  "Method structuredPost = ''POST''"
  "Header_Get (Header structuredPost) ''Content-Type'' = ''application/cloudevents+json''"
  by (simp_all add: structuredPost_def Header_Get_def canon_content_type)

lemma plainPost_facts:
  "Method plainPost = ''POST''"
  "Header_Get (Header plainPost) k = []"
  "convertBinary L plainPost =
     Inr (''{}'', WithValue Background contextKey (CloudEventContextV zeroCloudEventContext))"
  by (simp_all add: plainPost_def Header_Get_def convertBinary_def ioutil_ReadAll_def
      zeroCloudEventContext_def)


lemma ok_response:
  "Write out (WriteHeader StatusOK newResponseWriter) =
   \<lparr>rw_Header = Map.empty, rw_status = Some 200, rw_body = out\<rparr>"
  by (simp add: rw_defs)


lemma convertBinary_bad_time:
  "Header_Get (Header req) ''CE-EventTime'' \<noteq> [] \<Longrightarrow>
   time_Parse_RFC3339 L (Header_Get (Header req) ''CE-EventTime'') = Inl err \<Longrightarrow>
   convertBinary L req = Inl err"
  by (simp add: convertBinary_def)

lemma convertBinary_no_time:
  "Header_Get (Header req) ''CE-EventTime'' = [] \<Longrightarrow>
   convertBinary L req =
     (case failure (Body req) of
        Some err \<Rightarrow> Inl err
      | None \<Rightarrow>
          Inr (data (Body req),
               WithValue (Ctx req) contextKey (CloudEventContextV
                 \<lparr>EventType = Header_Get (Header req) ''CE-EventType'',
                  EventTypeVersion = Header_Get (Header req) ''CE-EventTypeVersion'',
                  CloudEventsVersion = Header_Get (Header req) ''CE-CloudEventsVersion'',
                  Source = Header_Get (Header req) ''CE-Source'',
                  EventID = Header_Get (Header req) ''CE-EventID'',
                  EventTime = zeroTime,
                  SchemaURL = Header_Get (Header req) ''CE-SchemaURL'',
                  ContentType = Header_Get (Header req) ''Content-Type'',
                  Extensions = Map.empty\<rparr>)))"
  by (simp add: convertBinary_def ioutil_ReadAll_def split: option.splits)

lemma convertBinary_Inr:
  assumes "convertBinary L req = Inr (inb, ctx)"
  shows "inb = data (Body req) \<and>
     (\<exists>cex. ctx = WithValue (Ctx req) contextKey (CloudEventContextV cex) \<and>
        EventType cex = Header_Get (Header req) ''CE-EventType'' \<and>
        EventTypeVersion cex = Header_Get (Header req) ''CE-EventTypeVersion'' \<and>
        CloudEventsVersion cex = Header_Get (Header req) ''CE-CloudEventsVersion'' \<and>
        Source cex = Header_Get (Header req) ''CE-Source'' \<and>
        EventID cex = Header_Get (Header req) ''CE-EventID'' \<and>
        SchemaURL cex = Header_Get (Header req) ''CE-SchemaURL'' \<and>
        ContentType cex = Header_Get (Header req) ''Content-Type'')"
  using assms
  by (auto simp: convertBinary_def ioutil_ReadAll_def Let_def
      split: if_splits sum.splits option.splits)

lemma convertBinary_succeeds_iff:
  "(\<exists>r. convertBinary L req = Inr r) \<longleftrightarrow>
     (Header_Get (Header req) ''CE-EventTime'' = [] \<or>
      (\<exists>t. time_Parse_RFC3339 L (Header_Get (Header req) ''CE-EventTime'') = Inr t)) \<and>
     failure (Body req) = None"
  by (auto simp: convertBinary_def ioutil_ReadAll_def Let_def
      split: if_splits sum.splits option.splits)

lemma Header_Get_absent: "h (CanonicalMIMEHeaderKey k) = None \<Longrightarrow> Header_Get h k = []"
  by (simp add: Header_Get_def)

lemma CloudEvent_WithValue:
  "CloudEvent (WithValue ctx contextKey (CloudEventContextV cex)) = (cex, True)"
  by (simp add: CloudEvent_def)

lemma not_attached_Value:
  "\<not> attached ctx \<Longrightarrow> \<not> isCloudEventContext (ctx_Value ctx contextKey)"
  by (induction ctx rule: attached.induct) auto

lemma CloudEvent_not_attached:
  "\<not> attached ctx \<Longrightarrow> CloudEvent ctx = (zeroCloudEventContext, False)"
  using not_attached_Value [of ctx]
  by (cases "ctx_Value ctx contextKey") (simp_all add: CloudEvent_def)

lemma canon_keys:
  "CanonicalMIMEHeaderKey ''CE-EventType'' = ''Ce-Eventtype''"
  "CanonicalMIMEHeaderKey ''CE-EventTypeVersion'' = ''Ce-Eventtypeversion''"
  "CanonicalMIMEHeaderKey ''CE-CloudEventsVersion'' = ''Ce-Cloudeventsversion''"
  "CanonicalMIMEHeaderKey ''CE-Source'' = ''Ce-Source''"
  "CanonicalMIMEHeaderKey ''CE-EventID'' = ''Ce-Eventid''"
  "CanonicalMIMEHeaderKey ''CE-SchemaURL'' = ''Ce-Schemaurl''"
  "CanonicalMIMEHeaderKey ''CE-EventTime'' = ''Ce-Eventtime''"
  "CanonicalMIMEHeaderKey ''Ce-Eventid'' = ''Ce-Eventid''"
  "CanonicalMIMEHeaderKey ''Ce-Eventtime'' = ''Ce-Eventtime''"
  by code_simp+

lemma Header_Get_event_keys:
  "Header_Get h ''Ce-Eventid'' = Header_Get h ''CE-EventID''"
  "Header_Get h ''Ce-Eventtime'' = Header_Get h ''CE-EventTime''"
  by (simp_all add: Header_Get_def canon_keys)

lemma getHeader_WithValue:
  "getHeader (WithValue ctx headerKey (HeaderV h)) k = Header_Get h k"
  by (simp add: getHeader_def)

lemma parse_2020:
  "parseRFC3339 ''2020-01-01T00:00:00Z'' =
     Inr \<lparr>year = 2020, month = 1, day = 1, hour = 0, minute = 0, second = 0,
          nanosecond = 0, zoneOffset = 0\<rparr>"
  by code_simp

lemma parse_empty: "parseRFC3339 [] = Inl (ParseError RFC3339 [] ''2006'' [] [])"
  by (simp add: parseRFC3339_def stdLongYear_def andThen_def errBad_def)

lemma parse_yesterday:
  "parseRFC3339 ''yesterday'' = Inl (ParseError RFC3339 ''yesterday'' ''2006'' ''yesterday'' [])"
  by (simp add: parseRFC3339_def stdLongYear_def andThen_def errBad_def isDigit_def)

lemma parse_error_text: "prefix ''parsing time '' (Error (ParseError l v le ve m))"
  by simp

lemma FunctionHandler_Invoke_calls:
  "args \<in> set (snd (FunctionHandler_Invoke L fh ctx inb)) \<Longrightarrow> needsContext fh \<Longrightarrow>
   \<exists>rest. args = CtxV ctx # rest"
  by (auto simp: FunctionHandler_Invoke_def Let_def
      split: option.splits if_splits sum.splits outcome.splits Value.splits)

lemma snd_respond: "snd (respond rw r) = snd r"
  by (auto simp: respond_def split: prod.splits outcome.splits option.splits)

lemma FunctionHandler_ServeHTTP_calls:
  "args \<in> set (snd (FunctionHandler_ServeHTTP L fh rw req)) \<Longrightarrow> needsContext fh \<Longrightarrow>
   \<exists>rest. args = CtxV (WithValue (Ctx req) headerKey (HeaderV (Header req))) # rest"
  using FunctionHandler_Invoke_calls
    [of args L fh "WithValue (Ctx req) headerKey (HeaderV (Header req))" "data (Body req)"]
  by (auto simp: FunctionHandler_ServeHTTP_def ioutil_ReadAll_def snd_respond Let_def
      split: if_splits option.splits)


lemma eventPost_facts:
  "Method eventPost = ''POST''"
  "Ctx eventPost = Background"
  "Body eventPost = \<lparr>data = ''{}'', failure = None\<rparr>"
  "Header_Get (Header eventPost) ''Content-Type'' = []"
  "Header_Get (Header eventPost) ''CE-EventType'' = []"
  "Header_Get (Header eventPost) ''CE-EventTypeVersion'' = []"
  "Header_Get (Header eventPost) ''CE-CloudEventsVersion'' = []"
  "Header_Get (Header eventPost) ''CE-Source'' = []"
  "Header_Get (Header eventPost) ''CE-EventID'' = ''abc-123''"
  "Header_Get (Header eventPost) ''CE-SchemaURL'' = []"
  "Header_Get (Header eventPost) ''CE-EventTime'' = ''2020-01-01T00:00:00Z''"
  by (simp_all add: eventPost_def Header_Get_def canon_keys canon_content_type)

lemma badTimePost_facts:
  "Method badTimePost = ''POST''"
  "Header_Get (Header badTimePost) ''Content-Type'' = []"
  "Header_Get (Header badTimePost) ''CE-EventTime'' = ''yesterday''"
  by (simp_all add: badTimePost_def Header_Get_def canon_keys canon_content_type)

lemma exampleLib_simps:
  "time_Parse_RFC3339 exampleLib = parseRFC3339"
  "json_Unmarshal exampleLib b t = Inr (StructV (rtype_String t) b)"
  "json_Marshal exampleLib (StructV name b) = Inr b"
  by (simp_all add: exampleLib_def)

lemma eventPost_absent: "Header eventPost ''Ce-Source'' = None"
  by (simp add: eventPost_def)

lemma plainPost_more:
  "Header plainPost k = None"
  "Ctx plainPost = Background"
  by (simp_all add: plainPost_def)

lemma badTimePost_more:
  "Ctx badTimePost = Background"
  by (simp_all add: badTimePost_def)

lemma convertBinary_eventPost:
  "convertBinary exampleLib eventPost =
     Inr (''{}'', WithValue Background contextKey (CloudEventContextV eventContext))"
  by (simp add: convertBinary_def eventPost_facts exampleLib_simps parse_2020 ioutil_ReadAll_def
      eventContext_def)

lemma draft_calls_eventPost:
  "snd (FunctionHandler_ServeHTTP exampleLib handleEventHandler newResponseWriter eventPost) =
     [[CtxV (WithValue Background headerKey (HeaderV (Header eventPost))),
       StructV ''main.MyData'' ''{}'']]"
  by (simp add: FunctionHandler_ServeHTTP_def eventPost_facts ioutil_ReadAll_def snd_respond
      FunctionHandler_Invoke_def handleEventHandler_def MyData_def exampleLib_simps HandleEvent_def)

subsection \<open>Signature analysis\<close>

text \<open>
  C1, as the code has it. \<open>wrap\<close> rejects a value that is no function, a function of more
  than two parameters, a function of two parameters whose first has not the context
  capability, a function of more than two results, and a function of two results whose
  first has the error capability or whose second has not, each with a message of its
  own, the parameters before the results. It accepts every other function, whatever the
  kind of its data parameter or data result: a data type that is neither a byte slice nor a
  struct is refused by \<open>Invoke\<close>, for each request, the parameter before any call and the
  result after the call.
\<close>

theorem wrap_rejects_by_count_and_position:
  "(Kind t \<noteq> KFunc \<longrightarrow>
      wrap (Iface t fn) = Returns (Inl (errorString (rtype_String t @ '' is not a function'')))) \<and>
   (Kind t = KFunc \<and> 2 < NumIn t \<longrightarrow>
      wrap (Iface t fn) = Returns (Inl (errorString (rtype_String t @ '' takes too many arguments'')))) \<and>
   (Kind t = KFunc \<and> NumIn t = 2 \<and> \<not> isCtx (ins_of t ! 0) \<longrightarrow>
      wrap (Iface t fn) =
        Returns (Inl (errorString (''First argument must be of type context.Context: '' @ rtype_String t)))) \<and>
   (Kind t = KFunc \<and> placedParams (ins_of t) \<and> 2 < NumOut t \<longrightarrow>
      wrap (Iface t fn) = Returns (Inl (errorString (rtype_String t @ '' returns too many outputs'')))) \<and>
   (Kind t = KFunc \<and> placedParams (ins_of t) \<and> NumOut t = 2 \<and>
    (isErr (outs_of t ! 0) \<or> \<not> isErr (outs_of t ! 1)) \<longrightarrow>
      wrap (Iface t fn) =
        Returns (Inl (errorString (''Must return (data, error) with two arguments: '' @ rtype_String t)))) \<and>
   (Kind t = KFunc \<and> placedParams (ins_of t) \<and> placedReturns (outs_of t) \<longrightarrow>
      (\<exists>h. wrap (Iface t fn) = Returns (Inr h))) \<and>
   (inType fh = Some d \<and> \<not> isData d \<longrightarrow>
      Invoke L fh ctx inb =
        (Returns ([], Some (errorString (''Unable to unmarshall type: '' @ rtype_String d))), [])) \<and>
   (Invoke_args L fh ctx inb = Inr args \<and> outType fh = Some d \<and> \<not> isData d \<longrightarrow>
      Invoke L fh ctx inb =
        (Returns ([], Some (errorString (''Unable to marshal type: '' @ rtype_String d))), [args]))"
  using wrap_not_func [of t fn] wrap_too_many_in [of t fn] wrap_ctx_first [of t fn]
    wrap_too_many_out [of t fn] wrap_error_position [of t fn] wrap_placed [of t fn]
    Invoke_in_unsupported [of fh d L ctx inb] Invoke_out_unsupported [of L fh ctx inb args d]
  by blast

theorem wrap_rejects_by_count_and_position_witness:
  "wrap (Iface IntT takesInt) = Returns (Inl (errorString ''int is not a function'')) \<and>
   wrap (Iface (FuncT [IntT, IntT, IntT] []) takesInt) =
     Returns (Inl (errorString ''func(int, int, int) takes too many arguments'')) \<and>
   wrap (Iface (FuncT [MyData, ctxType] []) takesInt) =
     Returns (Inl (errorString
       ''First argument must be of type context.Context: func(main.MyData, context.Context)'')) \<and>
   wrap (Iface (FuncT [] [IntT, IntT, errType]) takesInt) =
     Returns (Inl (errorString ''func() (int, int, error) returns too many outputs'')) \<and>
   wrap (Iface (FuncT [] [errType, MyData]) takesInt) =
     Returns (Inl (errorString
       ''Must return (data, error) with two arguments: func() (error, main.MyData)'')) \<and>
   Invoke exampleLib boomHandler Background [] =
     (Returns ([], Some (errorString ''Unable to marshal type: int'')), [[]])"
  using
    wrap_rejects_by_count_and_position [where t = IntT and fn = takesInt]
    wrap_rejects_by_count_and_position [where t = "FuncT [IntT, IntT, IntT] []" and fn = takesInt]
    wrap_rejects_by_count_and_position [where t = "FuncT [MyData, ctxType] []" and fn = takesInt]
    wrap_rejects_by_count_and_position [where t = "FuncT [] [IntT, IntT, errType]" and fn = takesInt]
    wrap_rejects_by_count_and_position [where t = "FuncT [] [errType, MyData]" and fn = takesInt]
    wrap_rejects_by_count_and_position [where fh = boomHandler and d = IntT and L = exampleLib
      and ctx = Background and inb = "[]" and args = "[]"]
  by (simp add: example_types NumIn_def NumOut_def boomHandler_def Invoke_args_def)

text \<open>
  C1 as the claim states it fails: \<^verbatim>\<open>func(int)\<close> is outside the legal shapes, \<open>wrap\<close>
  accepts it, and the request fails in \<open>Invoke\<close> with the status 500.
\<close>

theorem wrap_accepts_int_parameter:
  "\<not> legalParams [IntT] \<and>
   wrap (Iface (FuncT [IntT] []) takesInt) =
     Returns (Inr \<lparr>f = takesInt, needsContext = False, hasError = False,
                   inType = Some IntT, outType = None\<rparr>) \<and>
   ServeHTTP exampleLib
     \<lparr>f = takesInt, needsContext = False, hasError = False, inType = Some IntT, outType = None\<rparr>
     newResponseWriter plainPost =
     (Returns \<lparr>rw_Header = Map.empty, rw_status = Some 500,
               rw_body = ''Unable to unmarshall type: int''\<rparr>, [])"
proof (intro conjI)
  show "\<not> legalParams [IntT]"
    by (simp add: example_types)
  show "wrap (Iface (FuncT [IntT] []) takesInt) =
     Returns (Inr \<lparr>f = takesInt, needsContext = False, hasError = False,
                   inType = Some IntT, outType = None\<rparr>)"
    by (simp add: wrap_def reflect_defs example_types)
  show "ServeHTTP exampleLib
     \<lparr>f = takesInt, needsContext = False, hasError = False, inType = Some IntT, outType = None\<rparr>
     newResponseWriter plainPost =
     (Returns \<lparr>rw_Header = Map.empty, rw_status = Some 500,
               rw_body = ''Unable to unmarshall type: int''\<rparr>, [])"
    by (simp add: ServeHTTP_def plainPost_facts respond_def Invoke_def Invoke_args_def rw_defs)
qed

text \<open>
  C2. For a parameter list and a return list of the legal shapes, \<open>wrap\<close> returns the
  handler of the function with \<open>needsContext\<close> set exactly when the first parameter is a
  context, \<open>hasError\<close> set exactly when the last result is an error, and \<open>inType\<close> and
  \<open>outType\<close> the data parameter and the data result, absent when there is none.
\<close>

theorem wrap_legal_shapes:
  assumes "legalParams ins" and "legalReturns outs"
  shows "wrap (Iface (FuncT ins outs) fn) =
           Returns (Inr \<lparr>f = fn,
                         needsContext = (ins \<noteq> [] \<and> isCtx (hd ins)),
                         hasError = (outs \<noteq> [] \<and> isErr (last outs)),
                         inType = dataParam ins,
                         outType = dataReturn outs\<rparr>)"
proof (cases ins rule: legalParams.cases)
  case 1
  show ?thesis using assms 1
    by (cases outs rule: legalReturns.cases) (auto simp: wrap_def reflect_defs)
next
  case (2 t)
  show ?thesis using assms 2
    by (cases outs rule: legalReturns.cases) (auto simp: wrap_def reflect_defs)
next
  case (3 c d)
  show ?thesis using assms 3
    by (cases outs rule: legalReturns.cases) (auto simp: wrap_def reflect_defs)
next
  case (4 a b c ys)
  then show ?thesis using assms by simp
qed

theorem wrap_legal_shapes_witness:
  "legalParams [ctxType, MyData] \<and> legalReturns [errType] \<and>
   wrap (Iface (FuncT [ctxType, MyData] [errType]) HandleEvent) =
     Returns (Inr \<lparr>f = HandleEvent, needsContext = True, hasError = True,
                   inType = Some MyData, outType = None\<rparr>)"
  using wrap_legal_shapes [of "[ctxType, MyData]" "[errType]" HandleEvent]
  by (simp add: example_types)

subsection \<open>The endpoint\<close>

text \<open>
  C3, as the code has it. A POST request whose first \<^verbatim>\<open>Content-Type\<close> value starts with
  \<^verbatim>\<open>application/cloudevents\<close> is answered, whatever its body, with the status 417, the
  content type \<^verbatim>\<open>text/plain\<close> and the body \<open>structured output not supported yet\<close>, and the
  user's function is not called.
\<close>

theorem structured_mode_rejected:
  assumes "Method req = ''POST''"
    and "prefix ''application/cloudevents'' (Header_Get (Header req) ''Content-Type'')"
  shows "ServeHTTP L fh newResponseWriter req =
           (Returns \<lparr>rw_Header = [''Content-Type'' \<mapsto> [''text/plain'']], rw_status = Some 417,
                     rw_body = ''structured output not supported yet''\<rparr>, [])"
  using assms by (simp add: ServeHTTP_def convertStructured_def decode_error_response)

theorem structured_mode_rejected_witness:
  "Method structuredPost = ''POST'' \<and>
   prefix ''application/cloudevents'' (Header_Get (Header structuredPost) ''Content-Type'') \<and>
   ServeHTTP exampleLib handleEventHandler newResponseWriter structuredPost =
     (Returns \<lparr>rw_Header = [''Content-Type'' \<mapsto> [''text/plain'']], rw_status = Some 417,
               rw_body = ''structured output not supported yet''\<rparr>, [])"
  using structured_mode_rejected [of structuredPost exampleLib handleEventHandler]
  by (simp add: structuredPost_facts)

text \<open>C3 as the claim states it fails: the body is not the claim's message.\<close>

theorem structured_mode_message_differs:
  "Method structuredPost = ''POST'' \<and>
   prefix ''application/cloudevents'' (Header_Get (Header structuredPost) ''Content-Type'') \<and>
   ServeHTTP exampleLib handleEventHandler newResponseWriter structuredPost =
     (Returns \<lparr>rw_Header = [''Content-Type'' \<mapsto> [''text/plain'']], rw_status = Some 417,
               rw_body = ''structured output not supported yet''\<rparr>, []) \<and>
   ''structured output not supported yet'' \<noteq> ''structured content mode not supported''"
  by (simp add: structuredPost_facts ServeHTTP_def convertStructured_def decode_error_response)




text \<open>
  C5. In binary mode a POST request whose \<^verbatim>\<open>CE-EventTime\<close> is not empty and is refused by
  \<^verbatim>\<open>time.Parse\<close> is not decoded: the response is 417 with the parse error's text as its
  body, and the text of a \<^verbatim>\<open>time.ParseError\<close> starts with \<open>parsing time\<close>. With no
  \<^verbatim>\<open>CE-EventTime\<close>, or an empty one, the decoder fails only when the body cannot be read,
  and the event time of the context is the zero time.
\<close>

theorem bad_event_time_is_417:
  "(Method req = ''POST'' \<and>
    \<not> prefix ''application/cloudevents'' (Header_Get (Header req) ''Content-Type'') \<and>
    Header_Get (Header req) ''CE-EventTime'' \<noteq> [] \<and>
    time_Parse_RFC3339 L (Header_Get (Header req) ''CE-EventTime'') = Inl err \<longrightarrow>
      convertBinary L req = Inl err \<and>
      ServeHTTP L fh newResponseWriter req =
        (Returns \<lparr>rw_Header = [''Content-Type'' \<mapsto> [''text/plain'']], rw_status = Some 417,
                  rw_body = Error err\<rparr>, [])) \<and>
   prefix ''parsing time '' (Error (ParseError l v le ve m)) \<and>
   (Header_Get (Header req) ''CE-EventTime'' = [] \<and> failure (Body req) = None \<longrightarrow>
      (\<exists>ctx cex. convertBinary L req = Inr (data (Body req), ctx) \<and>
                 CloudEvent ctx = (cex, True) \<and> EventTime cex = zeroTime)) \<and>
   (Header_Get (Header req) ''CE-EventTime'' = [] \<and> failure (Body req) = Some err' \<longrightarrow>
      convertBinary L req = Inl err')"
proof (intro conjI impI)
  assume a: "Method req = ''POST'' \<and>
    \<not> prefix ''application/cloudevents'' (Header_Get (Header req) ''Content-Type'') \<and>
    Header_Get (Header req) ''CE-EventTime'' \<noteq> [] \<and>
    time_Parse_RFC3339 L (Header_Get (Header req) ''CE-EventTime'') = Inl err"
  then show cb: "convertBinary L req = Inl err"
    by (simp add: convertBinary_bad_time)
  from a cb show "ServeHTTP L fh newResponseWriter req =
        (Returns \<lparr>rw_Header = [''Content-Type'' \<mapsto> [''text/plain'']], rw_status = Some 417,
                  rw_body = Error err\<rparr>, [])"
    by (simp only: ServeHTTP_def decode_error_response) simp
next
  show "prefix ''parsing time '' (Error (ParseError l v le ve m))"
    by (rule parse_error_text)
next
  assume "Header_Get (Header req) ''CE-EventTime'' = [] \<and> failure (Body req) = None"
  then show "\<exists>ctx cex. convertBinary L req = Inr (data (Body req), ctx) \<and>
                 CloudEvent ctx = (cex, True) \<and> EventTime cex = zeroTime"
    by (simp add: convertBinary_no_time CloudEvent_WithValue)
next
  assume "Header_Get (Header req) ''CE-EventTime'' = [] \<and> failure (Body req) = Some err'"
  then show "convertBinary L req = Inl err'"
    by (simp add: convertBinary_no_time)
qed

theorem bad_event_time_is_417_witness:
  "Header_Get (Header badTimePost) ''CE-EventTime'' = ''yesterday'' \<and>
   time_Parse_RFC3339 exampleLib ''yesterday'' =
     Inl (ParseError RFC3339 ''yesterday'' ''2006'' ''yesterday'' []) \<and>
   ServeHTTP exampleLib handleEventHandler newResponseWriter badTimePost =
     (Returns \<lparr>rw_Header = [''Content-Type'' \<mapsto> [''text/plain'']], rw_status = Some 417,
               rw_body = Error (ParseError RFC3339 ''yesterday'' ''2006'' ''yesterday'' [])\<rparr>, []) \<and>
   prefix ''parsing time '' (Error (ParseError RFC3339 ''yesterday'' ''2006'' ''yesterday'' [])) \<and>
   Header_Get (Header plainPost) ''CE-EventTime'' = [] \<and>
   convertBinary exampleLib plainPost =
     Inr (''{}'', WithValue Background contextKey (CloudEventContextV zeroCloudEventContext)) \<and>
   EventTime zeroCloudEventContext = zeroTime"
  using bad_event_time_is_417 [where req = badTimePost and L = exampleLib
      and fh = handleEventHandler
      and err = "ParseError RFC3339 ''yesterday'' ''2006'' ''yesterday'' []"
      and l = RFC3339 and v = "''yesterday''" and le = "''2006''" and ve = "''yesterday''"
      and m = "[]"]
  by (simp add: badTimePost_facts plainPost_facts exampleLib_def parse_yesterday
      zeroCloudEventContext_def)

text \<open>
  C6. When the binary decoder succeeds, the payload is the request body as read and the
  context is the request's context with a \<^verbatim>\<open>CloudEventContext\<close> whose seven string fields
  are what \<^verbatim>\<open>Header.Get\<close> returns for the seven headers. \<^verbatim>\<open>Header.Get\<close> of an absent key
  is the empty string. The decoder succeeds exactly when \<^verbatim>\<open>CE-EventTime\<close> is empty or parsed
  and the body is read: no other header makes it fail.
\<close>

theorem binary_mode_copies_headers:
  "(convertBinary L req = Inr (inb, ctx) \<longrightarrow>
      inb = data (Body req) \<and>
      (\<exists>cex. ctx = WithValue (Ctx req) contextKey (CloudEventContextV cex) \<and>
        EventType cex = Header_Get (Header req) ''CE-EventType'' \<and>
        EventTypeVersion cex = Header_Get (Header req) ''CE-EventTypeVersion'' \<and>
        CloudEventsVersion cex = Header_Get (Header req) ''CE-CloudEventsVersion'' \<and>
        Source cex = Header_Get (Header req) ''CE-Source'' \<and>
        EventID cex = Header_Get (Header req) ''CE-EventID'' \<and>
        SchemaURL cex = Header_Get (Header req) ''CE-SchemaURL'' \<and>
        ContentType cex = Header_Get (Header req) ''Content-Type'')) \<and>
   (Header req (CanonicalMIMEHeaderKey k) = None \<longrightarrow> Header_Get (Header req) k = []) \<and>
   ((\<exists>r. convertBinary L req = Inr r) \<longleftrightarrow>
      (Header_Get (Header req) ''CE-EventTime'' = [] \<or>
       (\<exists>t. time_Parse_RFC3339 L (Header_Get (Header req) ''CE-EventTime'') = Inr t)) \<and>
      failure (Body req) = None)"
  using convertBinary_Inr [of L req inb ctx] Header_Get_absent [of "Header req" k]
    convertBinary_succeeds_iff [of L req]
  by blast

theorem binary_mode_copies_headers_witness:
  "convertBinary exampleLib eventPost =
     Inr (''{}'', WithValue Background contextKey (CloudEventContextV eventContext)) \<and>
   ''{}'' = data (Body eventPost) \<and>
   EventID eventContext = Header_Get (Header eventPost) ''CE-EventID'' \<and>
   Header eventPost (CanonicalMIMEHeaderKey ''CE-Source'') = None \<and>
   Header_Get (Header eventPost) ''CE-Source'' = [] \<and>
   Source eventContext = [] \<and>
   time_Parse_RFC3339 exampleLib (Header_Get (Header eventPost) ''CE-EventTime'') =
     Inr (EventTime eventContext) \<and>
   failure (Body eventPost) = None"
  using binary_mode_copies_headers [of exampleLib eventPost "''{}''"
      "WithValue Background contextKey (CloudEventContextV eventContext)" "''CE-Source''"]
  by (simp add: convertBinary_eventPost eventPost_facts eventContext_def exampleLib_simps
      parse_2020 canon_keys eventPost_absent)

text \<open>
  C7. \<open>CloudEvent\<close> on a context to which a \<^verbatim>\<open>CloudEventContext\<close> was attached under the
  package's key, as the binary decoder does, returns that value and true; on a context
  with no \<^verbatim>\<open>CloudEventContext\<close> attached it returns the zero value and false.
\<close>

theorem CloudEvent_round_trip:
  "CloudEvent (WithValue ctx contextKey (CloudEventContextV cex)) = (cex, True) \<and>
   (convertBinary L req = Inr (inb, ctx') \<longrightarrow>
      (\<exists>cex'. ctx' = WithValue (Ctx req) contextKey (CloudEventContextV cex') \<and>
              CloudEvent ctx' = (cex', True))) \<and>
   (\<not> attached ctx \<longrightarrow> CloudEvent ctx = (zeroCloudEventContext, False))"
  using convertBinary_Inr [of L req inb ctx'] CloudEvent_not_attached [of ctx]
  by (auto simp: CloudEvent_WithValue)

theorem CloudEvent_round_trip_witness:
  "CloudEvent (WithValue Background contextKey (CloudEventContextV eventContext)) =
     (eventContext, True) \<and>
   convertBinary exampleLib eventPost =
     Inr (''{}'', WithValue Background contextKey (CloudEventContextV eventContext)) \<and>
   \<not> attached (WithValue Background (foreignKey ''user'') (CloudEventContextV eventContext)) \<and>
   CloudEvent (WithValue Background (foreignKey ''user'') (CloudEventContextV eventContext)) =
     (zeroCloudEventContext, False) \<and>
   \<not> attached Background \<and>
   CloudEvent Background = (zeroCloudEventContext, False)"
  using CloudEvent_round_trip [of Background eventContext exampleLib eventPost "''{}''"
      "WithValue Background contextKey (CloudEventContextV eventContext)"]
    CloudEvent_round_trip [of "WithValue Background (foreignKey ''user'') (CloudEventContextV eventContext)"
      eventContext exampleLib eventPost "''{}''"
      "WithValue Background contextKey (CloudEventContextV eventContext)"]
  by (simp add: convertBinary_eventPost contextKey_def)

subsection \<open>The draft's accessors\<close>

text \<open>
  C8. The draft's \<open>ServeHTTP\<close> passes the request headers in the context. For a request
  with \<^verbatim>\<open>CE-EventID: abc-123\<close> and \<^verbatim>\<open>CE-EventTime: 2020-01-01T00:00:00Z\<close>, in every call of
  a function that takes the context, \<open>EventId\<close> on that context is \<open>abc-123\<close> and
  \<open>EventTime\<close> is the first of January 2020, 00:00:00 UTC, with no error (for the model
  of \<^verbatim>\<open>time.Parse\<close>). \<open>EventTime\<close> returns the parser's error for the empty string when the
  header is absent, and the parser's error when it refuses the header.
\<close>

theorem accessors_read_event_headers:
  "(Header_Get (Header req) ''CE-EventID'' = ''abc-123'' \<and>
    Header_Get (Header req) ''CE-EventTime'' = ''2020-01-01T00:00:00Z'' \<and>
    time_Parse_RFC3339 L = parseRFC3339 \<and> needsContext fh \<longrightarrow>
      (\<forall>args \<in> set (snd (FunctionHandler_ServeHTTP L fh rw req)).
         \<exists>ctx rest. args = CtxV ctx # rest \<and> EventId ctx = ''abc-123'' \<and>
           EventTime_accessor L ctx =
             Inr \<lparr>year = 2020, month = 1, day = 1, hour = 0, minute = 0, second = 0,
                  nanosecond = 0, zoneOffset = 0\<rparr>)) \<and>
   (Header req ''Ce-Eventtime'' = None \<and> time_Parse_RFC3339 L = parseRFC3339 \<longrightarrow>
      EventTime_accessor L (WithValue (Ctx req) headerKey (HeaderV (Header req))) =
        Inl (ParseError RFC3339 [] ''2006'' [] [])) \<and>
   (time_Parse_RFC3339 L (Header_Get (Header req) ''CE-EventTime'') = Inl err \<longrightarrow>
      EventTime_accessor L (WithValue (Ctx req) headerKey (HeaderV (Header req))) = Inl err)"
proof (intro conjI impI ballI)
  fix args
  assume a: "Header_Get (Header req) ''CE-EventID'' = ''abc-123'' \<and>
    Header_Get (Header req) ''CE-EventTime'' = ''2020-01-01T00:00:00Z'' \<and>
    time_Parse_RFC3339 L = parseRFC3339 \<and> needsContext fh"
    and b: "args \<in> set (snd (FunctionHandler_ServeHTTP L fh rw req))"
  from a b obtain rest where
    "args = CtxV (WithValue (Ctx req) headerKey (HeaderV (Header req))) # rest"
    using FunctionHandler_ServeHTTP_calls by blast
  moreover from a have "EventId (WithValue (Ctx req) headerKey (HeaderV (Header req))) = ''abc-123''"
    by (simp add: EventId_def getHeader_WithValue Header_Get_event_keys)
  moreover from a have "EventTime_accessor L (WithValue (Ctx req) headerKey (HeaderV (Header req))) =
      Inr \<lparr>year = 2020, month = 1, day = 1, hour = 0, minute = 0, second = 0,
                  nanosecond = 0, zoneOffset = 0\<rparr>"
    by (simp add: EventTime_accessor_def getHeader_WithValue Header_Get_event_keys parse_2020)
  ultimately show "\<exists>ctx rest. args = CtxV ctx # rest \<and> EventId ctx = ''abc-123'' \<and>
           EventTime_accessor L ctx =
             Inr \<lparr>year = 2020, month = 1, day = 1, hour = 0, minute = 0, second = 0,
                  nanosecond = 0, zoneOffset = 0\<rparr>"
    by blast
next
  assume "Header req ''Ce-Eventtime'' = None \<and> time_Parse_RFC3339 L = parseRFC3339"
  then show "EventTime_accessor L (WithValue (Ctx req) headerKey (HeaderV (Header req))) =
        Inl (ParseError RFC3339 [] ''2006'' [] [])"
    by (simp add: EventTime_accessor_def getHeader_WithValue Header_Get_def canon_keys parse_empty)
next
  assume "time_Parse_RFC3339 L (Header_Get (Header req) ''CE-EventTime'') = Inl err"
  then show "EventTime_accessor L (WithValue (Ctx req) headerKey (HeaderV (Header req))) = Inl err"
    by (simp add: EventTime_accessor_def getHeader_WithValue Header_Get_event_keys)
qed

theorem accessors_read_event_headers_witness:
  "snd (FunctionHandler_ServeHTTP exampleLib handleEventHandler newResponseWriter eventPost) =
     [[CtxV (WithValue Background headerKey (HeaderV (Header eventPost))),
       StructV ''main.MyData'' ''{}'']] \<and>
   EventId (WithValue Background headerKey (HeaderV (Header eventPost))) = ''abc-123'' \<and>
   EventTime_accessor exampleLib (WithValue Background headerKey (HeaderV (Header eventPost))) =
     Inr \<lparr>year = 2020, month = 1, day = 1, hour = 0, minute = 0, second = 0,
          nanosecond = 0, zoneOffset = 0\<rparr> \<and>
   EventTime_accessor exampleLib (WithValue Background headerKey (HeaderV (Header plainPost))) =
     Inl (ParseError RFC3339 [] ''2006'' [] []) \<and>
   EventTime_accessor exampleLib (WithValue Background headerKey (HeaderV (Header badTimePost))) =
     Inl (ParseError RFC3339 ''yesterday'' ''2006'' ''yesterday'' [])"
proof -
  have hyp: "Header_Get (Header eventPost) ''CE-EventID'' = ''abc-123'' \<and>
    Header_Get (Header eventPost) ''CE-EventTime'' = ''2020-01-01T00:00:00Z'' \<and>
    time_Parse_RFC3339 exampleLib = parseRFC3339 \<and> needsContext handleEventHandler"
    by (simp add: eventPost_facts exampleLib_simps handleEventHandler_def)
  with accessors_read_event_headers [where req = eventPost and L = exampleLib
      and fh = handleEventHandler and rw = newResponseWriter]
  have "\<forall>args \<in> set (snd (FunctionHandler_ServeHTTP exampleLib handleEventHandler
            newResponseWriter eventPost)).
          \<exists>ctx rest. args = CtxV ctx # rest \<and> EventId ctx = ''abc-123'' \<and>
            EventTime_accessor exampleLib ctx =
              Inr \<lparr>year = 2020, month = 1, day = 1, hour = 0, minute = 0, second = 0,
                   nanosecond = 0, zoneOffset = 0\<rparr>"
    by blast
  then have called:
    "EventId (WithValue Background headerKey (HeaderV (Header eventPost))) = ''abc-123'' \<and>
     EventTime_accessor exampleLib (WithValue Background headerKey (HeaderV (Header eventPost))) =
       Inr \<lparr>year = 2020, month = 1, day = 1, hour = 0, minute = 0, second = 0,
            nanosecond = 0, zoneOffset = 0\<rparr>"
    by (simp add: draft_calls_eventPost)
  have "Header plainPost ''Ce-Eventtime'' = None \<and> time_Parse_RFC3339 exampleLib = parseRFC3339"
    by (simp add: plainPost_more exampleLib_simps)
  with accessors_read_event_headers [where req = plainPost and L = exampleLib]
  have absent:
    "EventTime_accessor exampleLib (WithValue Background headerKey (HeaderV (Header plainPost))) =
       Inl (ParseError RFC3339 [] ''2006'' [] [])"
    by (simp add: plainPost_more)
  have "time_Parse_RFC3339 exampleLib (Header_Get (Header badTimePost) ''CE-EventTime'') =
          Inl (ParseError RFC3339 ''yesterday'' ''2006'' ''yesterday'' [])"
    by (simp add: badTimePost_facts exampleLib_simps parse_yesterday)
  with accessors_read_event_headers [where req = badTimePost and L = exampleLib
      and err = "ParseError RFC3339 ''yesterday'' ''2006'' ''yesterday'' []"]
  have malformed:
    "EventTime_accessor exampleLib (WithValue Background headerKey (HeaderV (Header badTimePost))) =
       Inl (ParseError RFC3339 ''yesterday'' ''2006'' ''yesterday'' [])"
    by (simp add: badTimePost_more)
  from called absent malformed show ?thesis
    by (simp add: draft_calls_eventPost)
qed

subsection \<open>The handler after \<open>wrap\<close>\<close>



subsection \<open>An encoding error and a nil error\<close>

text \<open>
  C10: where the code departs from the claim. For \<^verbatim>\<open>func() (Report, error)\<close> with a struct
  that \<^verbatim>\<open>json.Marshal\<close> refuses, the encoding error does not end \<open>Invoke\<close>, and an error
  returned by the function takes its place. But when the function returns a nil error,
  the assignment of line 60 sets \<open>err\<close> to nil as well: \<open>Invoke\<close> returns no error and the
  response is 200 with an empty body. Without an error result (\<^verbatim>\<open>func() Report\<close>) the
  encoding error is returned and the response is 500.
\<close>

theorem encode_error_lost_on_nil_error:
  "wrap (Iface (FuncT [] [Report, errType]) makesReport) = Returns (Inr reportHandler) \<and>
   json_Marshal refusingLib (hd (makesReport [])) =
     Inl (errorString ''json: unsupported type: chan int'') \<and>
   Invoke refusingLib reportHandler Background [] = (Returns ([], None), [[]]) \<and>
   ServeHTTP refusingLib reportHandler newResponseWriter plainPost =
     (Returns \<lparr>rw_Header = Map.empty, rw_status = Some 200, rw_body = []\<rparr>, [[]]) \<and>
   Invoke refusingLib (reportHandler\<lparr>f := reportFails\<rparr>) Background [] =
     (Returns ([], Some (errorString ''boom'')), [[]]) \<and>
   Invoke refusingLib (reportHandler\<lparr>f := makesReportOnly, hasError := False\<rparr>) Background [] =
     (Returns ([], Some (errorString ''json: unsupported type: chan int'')), [[]])"
proof (intro conjI)
  show "wrap (Iface (FuncT [] [Report, errType]) makesReport) = Returns (Inr reportHandler)"
    by (simp add: wrap_def reflect_defs example_types reportHandler_def)
  show "json_Marshal refusingLib (hd (makesReport [])) =
     Inl (errorString ''json: unsupported type: chan int'')"
    by (simp add: refusingLib_def)
  show "Invoke refusingLib reportHandler Background [] = (Returns ([], None), [[]])"
    by (simp add: Invoke_def Invoke_args_def Invoke_out_def Invoke_err_def reportHandler_def
        makesReport_def refusingLib_def Report_def)
  show "ServeHTTP refusingLib reportHandler newResponseWriter plainPost =
     (Returns \<lparr>rw_Header = Map.empty, rw_status = Some 200, rw_body = []\<rparr>, [[]])"
    by (simp add: ServeHTTP_def plainPost_facts respond_def Invoke_def Invoke_args_def
        Invoke_out_def Invoke_err_def reportHandler_def makesReport_def refusingLib_def
        Report_def ok_response)
  show "Invoke refusingLib (reportHandler\<lparr>f := reportFails\<rparr>) Background [] =
     (Returns ([], Some (errorString ''boom'')), [[]])"
    by (simp add: Invoke_def Invoke_args_def Invoke_out_def Invoke_err_def reportHandler_def
        reportFails_def refusingLib_def Report_def)
  show "Invoke refusingLib (reportHandler\<lparr>f := makesReportOnly, hasError := False\<rparr>) Background [] =
     (Returns ([], Some (errorString ''json: unsupported type: chan int'')), [[]])"
    by (simp add: Invoke_def Invoke_args_def Invoke_out_def Invoke_err_def reportHandler_def
        makesReportOnly_def refusingLib_def Report_def)
qed

end
